theory Spec2Isabelle
  imports Main
begin

section \<open>JavaScript values\<close>

text \<open>
  The payloads of the remote services and the objects built by \<^verbatim>\<open>src/users/api.js\<close>
  are JavaScript values. An object is an association list, in the order its keys were
  written. Numbers are integers here: no function of the module computes with one, and
  how a number prints is left to the environment.
\<close>

datatype js =
    Undefined
  | Null
  | Bool bool
  | Num int
  | Str string
  | Arr "js list"
  | Obj "(string \<times> js) list"

text \<open>What the runtime and the module throw. \<open>Error\<close> is \<^verbatim>\<open>new Error(message)\<close>;
  \<open>HttpFailure\<close> is the failure raised by the authenticated HTTP client.\<close>

record customAttributes =
  httpErrorStatus :: int
  httpErrorResponseData :: string

text \<open>The error descriptor \<^verbatim>\<open>{code, dismissible, text, type, topic}\<close>. The fields
  \<^verbatim>\<open>text\<close> and \<^verbatim>\<open>type\<close> carry a prime, since the plain words are taken.\<close>

record descriptor =
  code :: js
  dismissible :: bool
  text' :: string
  type' :: string
  topic :: string

datatype thrown =
    HttpFailure customAttributes
  | Error string
  | TypeError
  | SyntaxError

text \<open>A caught value is an object: the module attaches a \<^verbatim>\<open>userError\<close> property to it.\<close>

record exn =
  what :: thrown
  userError :: "descriptor option"

definition raised :: "thrown \<Rightarrow> exn" where
  "raised t = \<lparr>what = t, userError = None\<rparr>"

text \<open>The descriptor as the object literal of the source, keys in the source's order.\<close>

definition descriptor_js :: "descriptor \<Rightarrow> js" where
  "descriptor_js d =
     Obj [(''code'', code d), (''dismissible'', Bool (dismissible d)),
          (''text'', Str (text' d)), (''type'', Str (type' d)), (''topic'', Str (topic d))]"

subsection \<open>Conversions of the language\<close>

text \<open>Truthiness, as \<^verbatim>\<open>if (data.retirementDate)\<close> tests it.\<close>

fun truthy :: "js \<Rightarrow> bool" where
  "truthy Undefined = False"
| "truthy Null = False"
| "truthy (Bool b) = b"
| "truthy (Num n) = (n \<noteq> 0)"
| "truthy (Str s) = (s \<noteq> [])"
| "truthy (Arr xs) = True"
| "truthy (Obj kvs) = True"

text \<open>The decimal digits of an integer: what a template literal prints for a number that
  is an integer of less than sixteen digits. The sample environments below print numbers
  this way.\<close>

definition digit_char :: "nat \<Rightarrow> char" where
  "digit_char d = ''0123456789'' ! d"

fun decimal :: "nat \<Rightarrow> string" where
  "decimal n = (if n < 10 then [digit_char n] else decimal (n div 10) @ [digit_char (n mod 10)])"

definition number_string :: "int \<Rightarrow> string" where
  "number_string i = (if i < 0 then CHR ''-'' # decimal (nat (- i)) else decimal (nat i))"

fun join :: "string \<Rightarrow> string list \<Rightarrow> string" where
  "join sep [] = []"
| "join sep [x] = x"
| "join sep (x # y # ys) = x @ sep @ join sep (y # ys)"

section \<open>Asynchronous operations\<close>

text \<open>
  The requests the module sends through \<^verbatim>\<open>getAuthenticatedHttpClient()\<close>. An
  operation runs against the list of the requests issued so far, and either throws or
  returns a value; the requests it issued are appended to the list in both cases.
\<close>

datatype request =
    GET string
  | PATCH string js
  | POST string js

type_synonym 'a io = "request list \<Rightarrow> (exn + 'a) \<times> request list"

definition ret :: "'a \<Rightarrow> 'a io" where
  "ret x = (\<lambda>log. (Inr x, log))"

definition throw :: "exn \<Rightarrow> 'a io" where
  "throw e = (\<lambda>log. (Inl e, log))"

definition bind :: "'a io \<Rightarrow> ('a \<Rightarrow> 'b io) \<Rightarrow> 'b io" where
  "bind m k = (\<lambda>log. case m log of (Inl e, log') \<Rightarrow> (Inl e, log') | (Inr x, log') \<Rightarrow> k x log')"

definition catch :: "'a io \<Rightarrow> (exn \<Rightarrow> 'a io) \<Rightarrow> 'a io" where
  "catch m h = (\<lambda>log. case m log of (Inl e, log') \<Rightarrow> h e log' | (Inr x, log') \<Rightarrow> (Inr x, log'))"

text \<open>
  What lies outside the module: the configuration, the remote services behind the HTTP
  client (their answer may depend on the requests already made; a failure carries the
  HTTP status and the raw body), \<^verbatim>\<open>camelCaseObject\<close> of the platform library, the
  text of \<^verbatim>\<open>new Date(v)\<close> in a template literal, which depends on the locale, and
  the text of a number in a template literal, which is that of a double (the shortest
  digits that read back as the same double, in exponent form from \<^verbatim>\<open>1e21\<close>).
\<close>

record env =
  LMS_BASE_URL :: string
  DISCOVERY_API_BASE_URL :: string
  remote :: "request list \<Rightarrow> request \<Rightarrow> customAttributes + js"
  camelCaseObject :: "js \<Rightarrow> js"
  dateString :: "js \<Rightarrow> string"
  numberString :: "int \<Rightarrow> string"

definition send :: "env \<Rightarrow> request \<Rightarrow> js io" where
  "send env req = (\<lambda>log.
     (case remote env log req of
        Inl failure \<Rightarrow> Inl (raised (HttpFailure failure))
      | Inr data \<Rightarrow> Inr data,
      log @ [req]))"

text \<open>The string a template literal \<^verbatim>\<open>`${v}`\<close> inserts for a value.\<close>

fun to_string :: "env \<Rightarrow> js \<Rightarrow> string" where
  "to_string env Undefined = ''undefined''"
| "to_string env Null = ''null''"
| "to_string env (Bool b) = (if b then ''true'' else ''false'')"
| "to_string env (Num n) = numberString env n"
| "to_string env (Str s) = s"
| "to_string env (Arr xs) =
     join '','' (map (\<lambda>x. if x = Null \<or> x = Undefined then [] else to_string env x) xs)"
| "to_string env (Obj kvs) = ''[object Object]''"

text \<open>Property reads. \<^verbatim>\<open>v.k\<close> throws a TypeError on \<^verbatim>\<open>undefined\<close> and
  \<^verbatim>\<open>null\<close>; a missing property reads as \<^verbatim>\<open>undefined\<close>.\<close>

definition property :: "js \<Rightarrow> string \<Rightarrow> js io" where
  "property v k =
     (case v of
        Undefined \<Rightarrow> throw (raised TypeError)
      | Null \<Rightarrow> throw (raised TypeError)
      | Obj kvs \<Rightarrow> ret (case map_of kvs k of None \<Rightarrow> Undefined | Some x \<Rightarrow> x)
      | Arr xs \<Rightarrow> ret (if k = ''length'' then Num (int (length xs)) else Undefined)
      | Str s \<Rightarrow> ret (if k = ''length'' then Num (int (length s)) else Undefined)
      | _ \<Rightarrow> ret Undefined)"

text \<open>\<^verbatim>\<open>error.customAttributes.httpErrorStatus\<close>: only the client's failures have
  \<^verbatim>\<open>customAttributes\<close>; on any other caught value the read throws a TypeError.\<close>

definition customAttributes_of :: "exn \<Rightarrow> customAttributes io" where
  "customAttributes_of error =
     (case what error of
        HttpFailure ca \<Rightarrow> ret ca
      | _ \<Rightarrow> throw (raised TypeError))"

section \<open>Regular expressions\<close>

text \<open>
  \<^verbatim>\<open>s.match(pattern)\<close> with a string pattern compiles it without flags. Both
  patterns of the module are anchored at \<^verbatim>\<open>^\<close> and \<^verbatim>\<open>$\<close> and are sequences of
  character classes under \<^verbatim>\<open>+\<close>, \<^verbatim>\<open>{2,}\<close> or no quantifier, so a pattern is
  a list of (class, quantifier) and has to match the whole string.
\<close>

datatype quantifier = Exactly nat | AtLeast nat

type_synonym pattern = "((char \<Rightarrow> bool) \<times> quantifier) list"

fun matches :: "pattern \<Rightarrow> string \<Rightarrow> bool" where
  "matches [] s = (s = [])"
| "matches ((cls, Exactly 0) # rest) s = matches rest s"
| "matches ((cls, Exactly (Suc n)) # rest) [] = False"
| "matches ((cls, Exactly (Suc n)) # rest) (c # cs) =
     (cls c \<and> matches ((cls, Exactly n) # rest) cs)"
| "matches ((cls, AtLeast 0) # rest) [] = matches rest []"
| "matches ((cls, AtLeast 0) # rest) (c # cs) =
     (matches rest (c # cs) \<or> (cls c \<and> matches ((cls, AtLeast 0) # rest) cs))"
| "matches ((cls, AtLeast (Suc n)) # rest) [] = False"
| "matches ((cls, AtLeast (Suc n)) # rest) (c # cs) =
     (cls c \<and> matches ((cls, AtLeast n) # rest) cs)"

definition lower :: "char \<Rightarrow> bool" where
  "lower c = (c \<in> set ''abcdefghijklmnopqrstuvwxyz'')"

definition upper :: "char \<Rightarrow> bool" where
  "upper c = (c \<in> set ''ABCDEFGHIJKLMNOPQRSTUVWXYZ'')"

definition digit :: "char \<Rightarrow> bool" where
  "digit c = (c \<in> set ''0123456789'')"

text \<open>\<^verbatim>\<open>\w\<close> without the unicode flag is \<^verbatim>\<open>[A-Za-z0-9_]\<close>.\<close>

definition word_char :: "char \<Rightarrow> bool" where
  "word_char c = (lower c \<or> upper c \<or> digit c \<or> c = CHR ''_'')"

definition one :: "char \<Rightarrow> char \<Rightarrow> bool" where
  "one x c = (c = x)"

definition email_local :: "char \<Rightarrow> bool" where
  "email_local c = (lower c \<or> upper c \<or> digit c \<or> c \<in> set ''._%+-'')"

definition email_domain :: "char \<Rightarrow> bool" where
  "email_domain c = (lower c \<or> upper c \<or> digit c \<or> c \<in> set ''.-'')"

definition letter :: "char \<Rightarrow> bool" where
  "letter c = (lower c \<or> upper c)"

definition username_char :: "char \<Rightarrow> bool" where
  "username_char c = (word_char c \<or> c \<in> set ''.@_+-'')"

text \<open>\<^verbatim>\<open>^[a-zA-Z0-9._%+-]+@[a-zA-Z0-9.-]+\.[a-zA-Z]{2,}$\<close>\<close>

definition EMAIL_REGEX :: pattern where
  "EMAIL_REGEX =
     [(email_local, AtLeast 1), (one CHR ''@'', Exactly 1), (email_domain, AtLeast 1),
      (one CHR ''.'', Exactly 1), (letter, AtLeast 2)]"

text \<open>\<^verbatim>\<open>^[\w.@_+-]+$\<close>\<close>

definition USERNAME_REGEX :: pattern where
  "USERNAME_REGEX = [(username_char, AtLeast 1)]"

section \<open>JSON.parse\<close>

text \<open>
  The module passes the raw body of a failure to \<^verbatim>\<open>JSON.parse\<close> and logs the
  result. The value is only logged, so what matters is whether \<^verbatim>\<open>JSON.parse\<close>
  returns or throws its SyntaxError: it returns exactly on a JSON text. The text is
  read in two passes, both one symbol at a time: characters to tokens, then the
  nesting of arrays and objects over a stack.
\<close>

datatype token = LBrace | RBrace | LBracket | RBracket | Comma | Colon | StringT | Scalar

datatype number_state =
    AfterMinus | LeadingZero | IntDigits | AfterDot | FracDigits | AfterExp | AfterExpSign
  | ExpDigits

datatype lexer =
    Idle
  | InString
  | Escape
  | Hex nat
  | Literal string
  | Number number_state

definition whitespace :: "char \<Rightarrow> bool" where
  "whitespace c = (c \<in> set [CHR '' '', CHR 0x09, CHR 0x0A, CHR 0x0D])"

definition hex_digit :: "char \<Rightarrow> bool" where
  "hex_digit c = (digit c \<or> c \<in> set ''abcdefABCDEF'')"

definition control :: "char \<Rightarrow> bool" where
  "control c = ((of_char c :: nat) < 32)"

text \<open>A character where a token may start. The token is emitted at its first
  character; the states that follow check the rest of it.\<close>

definition lex_idle :: "char \<Rightarrow> (lexer \<times> token list) option" where
  "lex_idle c =
     (if whitespace c then Some (Idle, [])
      else if c = CHR ''{'' then Some (Idle, [LBrace])
      else if c = CHR ''}'' then Some (Idle, [RBrace])
      else if c = CHR ''['' then Some (Idle, [LBracket])
      else if c = CHR '']'' then Some (Idle, [RBracket])
      else if c = CHR '','' then Some (Idle, [Comma])
      else if c = CHR '':'' then Some (Idle, [Colon])
      else if c = CHR 0x22 then Some (InString, [StringT])
      else if c = CHR ''-'' then Some (Number AfterMinus, [Scalar])
      else if c = CHR ''0'' then Some (Number LeadingZero, [Scalar])
      else if digit c then Some (Number IntDigits, [Scalar])
      else if c = CHR ''t'' then Some (Literal ''rue'', [Scalar])
      else if c = CHR ''f'' then Some (Literal ''alse'', [Scalar])
      else if c = CHR ''n'' then Some (Literal ''ull'', [Scalar])
      else None)"

definition exponent_mark :: "char \<Rightarrow> bool" where
  "exponent_mark c = (c = CHR ''e'' \<or> c = CHR ''E'')"

fun lex_step :: "lexer \<Rightarrow> char \<Rightarrow> (lexer \<times> token list) option" where
  "lex_step Idle c = lex_idle c"
| "lex_step InString c =
     (if c = CHR 0x22 then Some (Idle, [])
      else if c = CHR 0x5C then Some (Escape, [])
      else if control c then None
      else Some (InString, []))"
| "lex_step Escape c =
     (if c \<in> set [CHR 0x22, CHR 0x5C, CHR ''/'', CHR ''b'', CHR ''f'', CHR ''n'', CHR ''r'', CHR ''t'']
      then Some (InString, [])
      else if c = CHR ''u'' then Some (Hex 4, [])
      else None)"
| "lex_step (Hex n) c =
     (if hex_digit c then Some (if n \<le> 1 then InString else Hex (n - 1), []) else None)"
| "lex_step (Literal []) c = lex_idle c"
| "lex_step (Literal (x # xs)) c =
     (if c = x then Some (if xs = [] then Idle else Literal xs, []) else None)"
| "lex_step (Number AfterMinus) c =
     (if c = CHR ''0'' then Some (Number LeadingZero, [])
      else if digit c then Some (Number IntDigits, [])
      else None)"
| "lex_step (Number LeadingZero) c =
     (if c = CHR ''.'' then Some (Number AfterDot, [])
      else if exponent_mark c then Some (Number AfterExp, [])
      else lex_idle c)"
| "lex_step (Number IntDigits) c =
     (if digit c then Some (Number IntDigits, [])
      else if c = CHR ''.'' then Some (Number AfterDot, [])
      else if exponent_mark c then Some (Number AfterExp, [])
      else lex_idle c)"
| "lex_step (Number AfterDot) c = (if digit c then Some (Number FracDigits, []) else None)"
| "lex_step (Number FracDigits) c =
     (if digit c then Some (Number FracDigits, [])
      else if exponent_mark c then Some (Number AfterExp, [])
      else lex_idle c)"
| "lex_step (Number AfterExp) c =
     (if c = CHR ''+'' \<or> c = CHR ''-'' then Some (Number AfterExpSign, [])
      else if digit c then Some (Number ExpDigits, [])
      else None)"
| "lex_step (Number AfterExpSign) c = (if digit c then Some (Number ExpDigits, []) else None)"
| "lex_step (Number ExpDigits) c =
     (if digit c then Some (Number ExpDigits, []) else lex_idle c)"

text \<open>The states in which the text may end: between tokens, or in a number that is
  complete as it stands.\<close>

definition lex_final :: "lexer \<Rightarrow> bool" where
  "lex_final l = (l \<in> set [Idle, Number LeadingZero, Number IntDigits, Number FracDigits, Number ExpDigits])"

fun lex :: "lexer \<Rightarrow> string \<Rightarrow> token list option" where
  "lex l [] = (if lex_final l then Some [] else None)"
| "lex l (c # cs) =
     (case lex_step l c of
        None \<Rightarrow> None
      | Some (l', ts) \<Rightarrow> (case lex l' cs of None \<Rightarrow> None | Some ts' \<Rightarrow> Some (ts @ ts')))"

datatype container = InArray | InObject

datatype expecting =
    Value
  | ValueOrClose
  | KeyOrClose
  | Key
  | AfterKey
  | AfterValue

definition open_value :: "container list \<Rightarrow> token \<Rightarrow> (expecting \<times> container list) option" where
  "open_value stack t =
     (case t of
        StringT \<Rightarrow> Some (AfterValue, stack)
      | Scalar \<Rightarrow> Some (AfterValue, stack)
      | LBracket \<Rightarrow> Some (ValueOrClose, InArray # stack)
      | LBrace \<Rightarrow> Some (KeyOrClose, InObject # stack)
      | _ \<Rightarrow> None)"

fun parse_step :: "expecting \<Rightarrow> container list \<Rightarrow> token \<Rightarrow> (expecting \<times> container list) option" where
  "parse_step Value stack t = open_value stack t"
| "parse_step ValueOrClose stack t =
     (case (t, stack) of
        (RBracket, InArray # rest) \<Rightarrow> Some (AfterValue, rest)
      | _ \<Rightarrow> open_value stack t)"
| "parse_step KeyOrClose stack t =
     (case (t, stack) of
        (RBrace, InObject # rest) \<Rightarrow> Some (AfterValue, rest)
      | (StringT, _) \<Rightarrow> Some (AfterKey, stack)
      | _ \<Rightarrow> None)"
| "parse_step Key stack t = (if t = StringT then Some (AfterKey, stack) else None)"
| "parse_step AfterKey stack t = (if t = Colon then Some (Value, stack) else None)"
| "parse_step AfterValue stack t =
     (case (t, stack) of
        (Comma, InArray # rest) \<Rightarrow> Some (Value, stack)
      | (RBracket, InArray # rest) \<Rightarrow> Some (AfterValue, rest)
      | (Comma, InObject # rest) \<Rightarrow> Some (Key, stack)
      | (RBrace, InObject # rest) \<Rightarrow> Some (AfterValue, rest)
      | _ \<Rightarrow> None)"

fun parse_tokens :: "expecting \<Rightarrow> container list \<Rightarrow> token list \<Rightarrow> bool" where
  "parse_tokens e stack [] = (e = AfterValue \<and> stack = [])"
| "parse_tokens e stack (t # ts) =
     (case parse_step e stack t of
        None \<Rightarrow> False
      | Some (e', stack') \<Rightarrow> parse_tokens e' stack' ts)"

definition json_text :: "string \<Rightarrow> bool" where
  "json_text s = (case lex Idle s of None \<Rightarrow> False | Some ts \<Rightarrow> parse_tokens Value [] ts)"

text \<open>\<^verbatim>\<open>console.log(JSON.parse(s))\<close>: the log line is not modelled, the SyntaxError is.\<close>

definition JSON_parse :: "string \<Rightarrow> unit io" where
  "JSON_parse s = (if json_text s then ret () else throw (raised SyntaxError))"

section \<open>The module \<^verbatim>\<open>src/users/api.js\<close>\<close>

subsection \<open>Single-resource lookups\<close>

definition getEntitlements :: "env \<Rightarrow> js \<Rightarrow> js io" where
  "getEntitlements env username =
     bind (send env (GET (LMS_BASE_URL env @ ''/api/entitlements/v1/entitlements/?user=''
                           @ to_string env username)))
       (\<lambda>data. ret data)"

definition getEnrollments :: "env \<Rightarrow> js \<Rightarrow> js io" where
  "getEnrollments env username =
     bind (send env (GET (LMS_BASE_URL env @ ''/support/enrollment/'' @ to_string env username)))
       (\<lambda>data. ret data)"

text \<open>\<^verbatim>\<open>data[i]\<close> on an array: \<^verbatim>\<open>undefined\<close> beyond its end.\<close>

fun index :: "js \<Rightarrow> nat \<Rightarrow> js" where
  "index (Arr xs) i = (if i < length xs then xs ! i else Undefined)"
| "index v i = Undefined"

text \<open>\<^verbatim>\<open>Array.isArray(data) && data.length > 0 ? data[0] : data\<close>\<close>

fun first_or_whole :: "js \<Rightarrow> js" where
  "first_or_whole (Arr xs) = (if length xs > 0 then index (Arr xs) 0 else Arr xs)"
| "first_or_whole data = data"

definition userNotFound :: "string \<Rightarrow> descriptor" where
  "userNotFound notFoundErrorText =
     \<lparr>code = Null, dismissible = True, text' = notFoundErrorText, type' = ''error'',
      topic = ''general''\<rparr>"

definition userLoadFailed :: descriptor where
  "userLoadFailed =
     \<lparr>code = Null, dismissible = True,
      text' = ''There was an error loading this user'' @ [CHR 0x27]
              @ ''s data. Check the JavaScript console for detailed errors.'',
      type' = ''danger'', topic = ''general''\<rparr>"

text \<open>The two branches of \<^verbatim>\<open>getUser\<close> on the identifier: the URL and the text of
  the not-found message, or nothing when neither pattern matches.\<close>

definition classify :: "env \<Rightarrow> string \<Rightarrow> (string \<times> string) option" where
  "classify env userIdentifier =
     (let url = LMS_BASE_URL env @ ''/api/user/v1/accounts'';
          notFoundErrorText = ''We couldn'' @ [CHR 0x27] @ ''t find a user with the ''
      in if matches EMAIL_REGEX userIdentifier
         then Some (url @ ''?email='' @ userIdentifier,
                    notFoundErrorText @ ''email '' @ [CHR 0x22] @ userIdentifier @ [CHR 0x22] @ ''.'')
         else if matches USERNAME_REGEX userIdentifier
         then Some (url @ ''/'' @ userIdentifier,
                    notFoundErrorText @ ''username '' @ [CHR 0x22] @ userIdentifier @ [CHR 0x22] @ ''.'')
         else None)"

definition getUser :: "env \<Rightarrow> string \<Rightarrow> js io" where
  "getUser env userIdentifier =
     (case classify env userIdentifier of
        None \<Rightarrow> throw (raised (Error ''Invalid Argument!''))
      | Some (url, notFoundErrorText) \<Rightarrow>
          catch (bind (send env (GET url)) (\<lambda>data. ret (first_or_whole data)))
            (\<lambda>error.
               bind (customAttributes_of error) (\<lambda>attrs.
               bind (JSON_parse (httpErrorResponseData attrs)) (\<lambda>_.
                 if httpErrorStatus attrs = 404
                 then throw (error\<lparr>userError := Some (userNotFound notFoundErrorText)\<rparr>)
                 else throw (error\<lparr>userError := Some userLoadFailed\<rparr>)))))"

definition verificationNotAvailable :: js where
  "verificationNotAvailable =
     Obj [(''status'', Str ''Not Available''), (''expirationDatetime'', Str []),
          (''isVerified'', Bool False)]"

definition verificationUnknown :: js where
  "verificationUnknown =
     Obj [(''status'', Str ''Error, status unknown''), (''expirationDatetime'', Str []),
          (''isVerified'', Bool False)]"

definition getUserVerificationStatus :: "env \<Rightarrow> js \<Rightarrow> js io" where
  "getUserVerificationStatus env username =
     catch (bind (send env (GET (LMS_BASE_URL env @ ''/api/user/v1/accounts/''
                                  @ to_string env username @ ''/verification_status/'')))
              (\<lambda>data. ret data))
       (\<lambda>error.
          bind (customAttributes_of error) (\<lambda>attrs.
          bind (JSON_parse (httpErrorResponseData attrs)) (\<lambda>_.
            if httpErrorStatus attrs = 404 then ret verificationNotAvailable
            else ret verificationUnknown)))"

subsection \<open>Retirement fallback\<close>

definition retired :: "string \<Rightarrow> descriptor" where
  "retired errorString =
     \<lparr>code = Null, dismissible = True, text' = errorString, type' = ''error'',
      topic = ''general''\<rparr>"

text \<open>
  \<^verbatim>\<open>getRetirement\<close> returns an object with a \<^verbatim>\<open>userError\<close> property (a fresh
  object, or the caught failure), or, at the end of its \<^verbatim>\<open>catch\<close> block, nothing.
  Its one caller reads \<^verbatim>\<open>userError\<close> only, so the object is given by that
  property: \<open>Some d\<close>; \<open>None\<close> is \<^verbatim>\<open>undefined\<close>.
\<close>

definition getRetirement :: "env \<Rightarrow> string \<Rightarrow> descriptor option io" where
  "getRetirement env username =
     catch
       (bind (send env (GET (LMS_BASE_URL env @ ''/api/user/v1/accounts/'' @ username
                             @ ''/retirement_information/'')))
          (\<lambda>response.
             let data = camelCaseObject env response in
             bind (property data ''retirementRequestDate'') (\<lambda>retirementRequestDate.
               let errorString = ''User with username '' @ username
                     @ '' has been retired. The user requested retirement on ''
                     @ dateString env retirementRequestDate @ ''. ''
               in bind (property data ''retirementDate'') (\<lambda>retirementDate.
                    if truthy retirementDate
                    then ret (Some (retired (errorString @ ''They were retired on ''
                                              @ dateString env retirementDate)))
                    else ret (Some (retired (errorString
                           @ ''Information about their retirement date is not available'')))))))
       (\<lambda>error.
          bind (customAttributes_of error) (\<lambda>attrs.
            if httpErrorStatus attrs = 404
            then ret (Some (userNotFound (''We couldn'' @ [CHR 0x27]
                              @ ''t find a user with the username '' @ [CHR 0x22] @ username
                              @ [CHR 0x22] @ ''.'')))
            else ret None))"

subsection \<open>Course summary\<close>

definition courseError404 :: "env \<Rightarrow> js \<Rightarrow> descriptor" where
  "courseError404 env courseUUID =
     \<lparr>code = Null, dismissible = True,
      text' = ''We couldn'' @ [CHR 0x27] @ ''t find summary data for this Course ''
              @ [CHR 0x22] @ to_string env courseUUID @ [CHR 0x22] @ ''.'',
      type' = ''error'', topic = ''course-summary''\<rparr>"

definition courseError :: "env \<Rightarrow> js \<Rightarrow> descriptor" where
  "courseError env courseUUID =
     \<lparr>code = Null, dismissible = True,
      text' = ''Error finding summary data for this Course '' @ [CHR 0x22]
              @ to_string env courseUUID @ [CHR 0x22] @ ''.'',
      type' = ''danger'', topic = ''course-summary''\<rparr>"

text \<open>The object \<^verbatim>\<open>{ errors: [d] }\<close> that the operations below return on failure.\<close>

definition errors_object :: "descriptor \<Rightarrow> js" where
  "errors_object d = Obj [(''errors'', Arr [descriptor_js d])]"

definition getCourseData :: "env \<Rightarrow> js \<Rightarrow> js io" where
  "getCourseData env courseUUID =
     catch (bind (send env (GET (DISCOVERY_API_BASE_URL env @ ''/api/v1/courses/''
                                  @ to_string env courseUUID @ ''/'')))
              (\<lambda>data. ret data))
       (\<lambda>error.
          bind (customAttributes_of error) (\<lambda>attrs.
          bind (JSON_parse (httpErrorResponseData attrs)) (\<lambda>_.
            if httpErrorStatus attrs = 404 then ret (errors_object (courseError404 env courseUUID))
            else ret (errors_object (courseError env courseUUID)))))"

subsection \<open>Mutation operations\<close>

text \<open>A destructured parameter with the default \<^verbatim>\<open>= null\<close>.\<close>

definition default_null :: "js \<Rightarrow> js" where
  "default_null v = (if v = Undefined then Null else v)"

definition submitFailed :: "string \<Rightarrow> descriptor" where
  "submitFailed t =
     \<lparr>code = Null, dismissible = True,
      text' = ''There was an error submitting this entitlement. Check the JavaScript console for detailed errors.'',
      type' = ''danger'', topic = t\<rparr>"

text \<open>The \<^verbatim>\<open>catch\<close> block shared, word for word, by the three mutation operations;
  only the topic of the descriptor differs.\<close>

definition submit_catch :: "string \<Rightarrow> exn \<Rightarrow> js io" where
  "submit_catch t error =
     bind (customAttributes_of error) (\<lambda>attrs.
     bind (if httpErrorStatus attrs = 400
           then bind (customAttributes_of error) (\<lambda>attrs'.
                  JSON_parse (httpErrorResponseData attrs'))
           else ret ())
       (\<lambda>_. ret (errors_object (submitFailed t))))"

text \<open>The request each operation sends: the URL and the body it builds.\<close>

definition patchEntitlement_request :: "env \<Rightarrow> js \<Rightarrow> js \<Rightarrow> js \<Rightarrow> js \<Rightarrow> request" where
  "patchEntitlement_request env uuid action unenrolledRun comments =
     PATCH (LMS_BASE_URL env @ ''/api/entitlements/v1/entitlements/'' @ to_string env uuid @ ''/'')
       (Obj [(''expired_at'', Null),
             (''support_details'',
                Arr [Obj [(''unenrolled_run'', default_null unenrolledRun),
                          (''action'', action),
                          (''comments'', default_null comments)]])])"

definition patchEntitlement :: "env \<Rightarrow> js \<Rightarrow> js \<Rightarrow> js \<Rightarrow> js \<Rightarrow> js io" where
  "patchEntitlement env uuid action unenrolledRun comments =
     catch
       (bind (send env (patchEntitlement_request env uuid action unenrolledRun comments))
          (\<lambda>data. ret data))
       (submit_catch ''entitlements'')"

definition postEntitlement_request :: "env \<Rightarrow> js \<Rightarrow> js \<Rightarrow> js \<Rightarrow> js \<Rightarrow> js \<Rightarrow> request" where
  "postEntitlement_request env user courseUuid mode action comments =
     POST (LMS_BASE_URL env @ ''/api/entitlements/v1/entitlements/'')
       (Obj [(''course_uuid'', courseUuid),
             (''user'', user),
             (''mode'', mode),
             (''refund_locked'', Bool True),
             (''support_details'',
                Arr [Obj [(''action'', action),
                          (''comments'', default_null comments)]])])"

definition postEntitlement :: "env \<Rightarrow> js \<Rightarrow> js \<Rightarrow> js \<Rightarrow> js \<Rightarrow> js \<Rightarrow> js io" where
  "postEntitlement env user courseUuid mode action comments =
     catch
       (bind (send env (postEntitlement_request env user courseUuid mode action comments))
          (\<lambda>data. ret data))
       (submit_catch ''entitlements'')"

definition postEnrollmentChange_request :: "env \<Rightarrow> js \<Rightarrow> js \<Rightarrow> js \<Rightarrow> js \<Rightarrow> js \<Rightarrow> request" where
  "postEnrollmentChange_request env user courseID newMode oldMode reason =
     POST (LMS_BASE_URL env @ ''/support/enrollment/'' @ to_string env user)
       (Obj [(''course_id'', courseID),
             (''new_mode'', newMode),
             (''old_mode'', oldMode),
             (''reason'', reason)])"

definition postEnrollmentChange :: "env \<Rightarrow> js \<Rightarrow> js \<Rightarrow> js \<Rightarrow> js \<Rightarrow> js \<Rightarrow> js io" where
  "postEnrollmentChange env user courseID newMode oldMode reason =
     catch
       (bind (send env (postEnrollmentChange_request env user courseID newMode oldMode reason))
          (\<lambda>data. ret data))
       (submit_catch ''enrollments'')"

subsection \<open>Aggregation workflow\<close>

record AggregateResult =
  errors :: "descriptor list"
  user :: js
  entitlements :: js
  enrollments :: js
  verificationStatus :: js

text \<open>\<^verbatim>\<open>retirement.userError\<close>: a TypeError when \<^verbatim>\<open>retirement\<close> is undefined.\<close>

definition userError_of :: "descriptor option \<Rightarrow> descriptor io" where
  "userError_of retirement =
     (case retirement of None \<Rightarrow> throw (raised TypeError) | Some d \<Rightarrow> ret d)"

definition getAllUserData :: "env \<Rightarrow> string \<Rightarrow> AggregateResult io" where
  "getAllUserData env userIdentifier =
     bind
       (catch (bind (getUser env userIdentifier) (\<lambda>user. ret ([], user)))
          (\<lambda>error.
             bind (getRetirement env userIdentifier) (\<lambda>retirement.
             bind (userError_of retirement) (\<lambda>retirementError.
               case userError error of
                 Some d \<Rightarrow> ret ([retirementError, d], Null)
               | None \<Rightarrow> throw error))))
       (\<lambda>(errors, user).
          bind
            (if user \<noteq> Null
             then bind (property user ''username'') (\<lambda>username.
                  bind (getEntitlements env username) (\<lambda>entitlements.
                  bind (property user ''username'') (\<lambda>username.
                  bind (getEnrollments env username) (\<lambda>enrollments.
                  bind (property user ''username'') (\<lambda>username.
                  bind (getUserVerificationStatus env username) (\<lambda>verificationStatus.
                    ret (entitlements, enrollments, verificationStatus)))))))
             else ret (Arr [], Arr [], Null))
            (\<lambda>(entitlements, enrollments, verificationStatus).
               ret \<lparr>errors = errors, user = user, entitlements = entitlements,
                    enrollments = enrollments, verificationStatus = verificationStatus\<rparr>))"

section \<open>The descriptor contract\<close>

text \<open>What the data model fixes for every descriptor: no code, dismissible, one of the
  two severities and one of the four topics.\<close>

definition well_formed :: "descriptor \<Rightarrow> bool" where
  "well_formed d =
     (code d = Null \<and> dismissible d \<and> type' d \<in> {''error'', ''danger''} \<and>
      topic d \<in> {''general'', ''entitlements'', ''enrollments'', ''course-summary''})"

section \<open>Sample environments\<close>

text \<open>Remote services that answer every request the same way, for the concrete runs
  below. The sample environment leaves keys as they are, prints a date as the string
  it was built from and a number by its decimal digits.\<close>

definition failing :: "int \<Rightarrow> string \<Rightarrow> request list \<Rightarrow> request \<Rightarrow> customAttributes + js" where
  "failing status body log req = Inl \<lparr>httpErrorStatus = status, httpErrorResponseData = body\<rparr>"

definition answering :: "js \<Rightarrow> request list \<Rightarrow> request \<Rightarrow> customAttributes + js" where
  "answering data log req = Inr data"

text \<open>One behaviour for the first request, another for every later one.\<close>

definition first_then ::
  "(request list \<Rightarrow> request \<Rightarrow> customAttributes + js) \<Rightarrow>
   (request list \<Rightarrow> request \<Rightarrow> customAttributes + js) \<Rightarrow>
   request list \<Rightarrow> request \<Rightarrow> customAttributes + js" where
  "first_then r1 r2 log req = (if log = [] then r1 log req else r2 log req)"

definition sample_date :: "js \<Rightarrow> string" where
  "sample_date v = (case v of Str s \<Rightarrow> s | _ \<Rightarrow> ''Invalid Date'')"

definition sample_env :: "(request list \<Rightarrow> request \<Rightarrow> customAttributes + js) \<Rightarrow> env" where
  "sample_env r =
     \<lparr>LMS_BASE_URL = ''http://lms'', DISCOVERY_API_BASE_URL = ''http://discovery'',
      remote = r, camelCaseObject = id, dateString = sample_date,
      numberString = number_string\<rparr>"

text \<open>A retired user: the account lookup answers 404, the retirement record is there.\<close>

definition retired_remote :: "request list \<Rightarrow> request \<Rightarrow> customAttributes + js" where
  "retired_remote =
     first_then (failing 404 ''{}'')
       (answering (Obj [(''retirementRequestDate'', Str ''2020-01-01'')]))"

text \<open>The services of a user \<^verbatim>\<open>alice\<close>: the account, and one payload per dependent
  lookup; any other request fails with a 404.\<close>

definition alice_remote :: "request list \<Rightarrow> request \<Rightarrow> customAttributes + js" where
  "alice_remote log req =
     (if req = GET ''http://lms/api/user/v1/accounts/alice''
      then Inr (Obj [(''username'', Str ''alice'')])
      else if req = GET ''http://lms/api/entitlements/v1/entitlements/?user=alice''
      then Inr (Str ''entitlements of alice'')
      else if req = GET ''http://lms/support/enrollment/alice''
      then Inr (Str ''enrollments of alice'')
      else if req = GET ''http://lms/api/user/v1/accounts/alice/verification_status/''
      then Inr (Str ''verification of alice'')
      else Inl \<lparr>httpErrorStatus = 404, httpErrorResponseData = ''{}''\<rparr>)"

section \<open>Runs of the operations\<close>

text \<open>What each operation returns and which requests it issues, by the answer of the
  remote service. The properties below are read off these equations.\<close>

lemmas io_defs = bind_def ret_def throw_def catch_def send_def

lemma catch_send:
  "catch (bind (send env req) (\<lambda>data. ret data)) h log =
     (case remote env log req of
        Inr data \<Rightarrow> (Inr data, log @ [req])
      | Inl attrs \<Rightarrow> h (raised (HttpFailure attrs)) (log @ [req]))"
  by (simp add: io_defs split: sum.splits)

lemma getUser_run:
  "classify env userIdentifier = Some (url, notFoundErrorText) \<Longrightarrow>
   getUser env userIdentifier log =
     (case remote env log (GET url) of
        Inr data \<Rightarrow> Inr (first_or_whole data)
      | Inl attrs \<Rightarrow>
          if json_text (httpErrorResponseData attrs)
          then Inl \<lparr>what = HttpFailure attrs,
                    userError = Some (if httpErrorStatus attrs = 404
                                      then userNotFound notFoundErrorText else userLoadFailed)\<rparr>
          else Inl (raised SyntaxError),
      log @ [GET url])"
  apply (simp add: getUser_def)
  apply (simp add: io_defs)
  apply (cases "remote env log (GET url)")
   apply (simp_all add: customAttributes_of_def JSON_parse_def raised_def io_defs)
  done

lemma getUser_http_failure:
  assumes "getUser env userIdentifier log = (Inl error, log1)"
    and "what error = HttpFailure attrs"
  shows "\<exists>url notFoundErrorText.
           classify env userIdentifier = Some (url, notFoundErrorText) \<and>
           userError error = Some (if httpErrorStatus attrs = 404
                                   then userNotFound notFoundErrorText else userLoadFailed)"
proof (cases "classify env userIdentifier")
  case None
  with assms show ?thesis by (auto simp add: getUser_def throw_def raised_def)
next
  case (Some p)
  obtain url t where "p = (url, t)" by (cases p)
  with Some have c: "classify env userIdentifier = Some (url, t)" by simp
  from getUser_run [OF c, of log] assms c show ?thesis
    by (auto simp: raised_def split: sum.splits if_splits)
qed

lemma getUserVerificationStatus_run:
  "getUserVerificationStatus env username log =
     (case remote env log (GET (LMS_BASE_URL env @ ''/api/user/v1/accounts/''
                                  @ to_string env username @ ''/verification_status/'')) of
        Inr data \<Rightarrow> Inr data
      | Inl attrs \<Rightarrow>
          if json_text (httpErrorResponseData attrs)
          then Inr (if httpErrorStatus attrs = 404 then verificationNotAvailable
                    else verificationUnknown)
          else Inl (raised SyntaxError),
      log @ [GET (LMS_BASE_URL env @ ''/api/user/v1/accounts/''
                                  @ to_string env username @ ''/verification_status/'')])"
  apply (simp add: getUserVerificationStatus_def io_defs)
  apply (cases "remote env log (GET (LMS_BASE_URL env @ ''/api/user/v1/accounts/''
                                  @ to_string env username @ ''/verification_status/''))")
   apply (simp_all add: customAttributes_of_def JSON_parse_def raised_def io_defs)
  done

lemma getCourseData_run:
  "getCourseData env courseUUID log =
     (case remote env log (GET (DISCOVERY_API_BASE_URL env @ ''/api/v1/courses/''
                                  @ to_string env courseUUID @ ''/'')) of
        Inr data \<Rightarrow> Inr data
      | Inl attrs \<Rightarrow>
          if json_text (httpErrorResponseData attrs)
          then Inr (errors_object (if httpErrorStatus attrs = 404 then courseError404 env courseUUID
                    else courseError env courseUUID))
          else Inl (raised SyntaxError),
      log @ [GET (DISCOVERY_API_BASE_URL env @ ''/api/v1/courses/''
                                  @ to_string env courseUUID @ ''/'')])"
  apply (simp add: getCourseData_def io_defs)
  apply (cases "remote env log (GET (DISCOVERY_API_BASE_URL env @ ''/api/v1/courses/''
                                  @ to_string env courseUUID @ ''/''))")
   apply (simp_all add: customAttributes_of_def JSON_parse_def raised_def io_defs)
  done

lemma submit_catch_run:
  "submit_catch t (raised (HttpFailure attrs)) log =
     (if httpErrorStatus attrs = 400 \<and> \<not> json_text (httpErrorResponseData attrs)
      then Inl (raised SyntaxError)
      else Inr (errors_object (submitFailed t)),
      log)"
  by (simp add: submit_catch_def customAttributes_of_def JSON_parse_def raised_def io_defs)

lemma patchEntitlement_failure:
  "remote env log (patchEntitlement_request env uuid action unenrolledRun comments) = Inl attrs \<Longrightarrow>
   patchEntitlement env uuid action unenrolledRun comments log =
     (if httpErrorStatus attrs = 400 \<and> \<not> json_text (httpErrorResponseData attrs)
      then Inl (raised SyntaxError)
      else Inr (errors_object (submitFailed ''entitlements'')),
      log @ [patchEntitlement_request env uuid action unenrolledRun comments])"
  unfolding patchEntitlement_def catch_send by (simp add: submit_catch_run)

lemma postEntitlement_failure:
  "remote env log (postEntitlement_request env usr courseUuid mode action comments) = Inl attrs \<Longrightarrow>
   postEntitlement env usr courseUuid mode action comments log =
     (if httpErrorStatus attrs = 400 \<and> \<not> json_text (httpErrorResponseData attrs)
      then Inl (raised SyntaxError)
      else Inr (errors_object (submitFailed ''entitlements'')),
      log @ [postEntitlement_request env usr courseUuid mode action comments])"
  unfolding postEntitlement_def catch_send by (simp add: submit_catch_run)

lemma postEnrollmentChange_failure:
  "remote env log (postEnrollmentChange_request env usr courseID newMode oldMode reason) = Inl attrs \<Longrightarrow>
   postEnrollmentChange env usr courseID newMode oldMode reason log =
     (if httpErrorStatus attrs = 400 \<and> \<not> json_text (httpErrorResponseData attrs)
      then Inl (raised SyntaxError)
      else Inr (errors_object (submitFailed ''enrollments'')),
      log @ [postEnrollmentChange_request env usr courseID newMode oldMode reason])"
  unfolding postEnrollmentChange_def catch_send by (simp add: submit_catch_run)

lemma getRetirement_failure:
  "remote env log (GET (LMS_BASE_URL env @ ''/api/user/v1/accounts/'' @ username
                             @ ''/retirement_information/'')) = Inl attrs \<Longrightarrow>
   getRetirement env username log =
     (Inr (if httpErrorStatus attrs = 404
           then Some (userNotFound (''We couldn'' @ [CHR 0x27]
                              @ ''t find a user with the username '' @ [CHR 0x22] @ username
                              @ [CHR 0x22] @ ''.''))
           else None),
      log @ [GET (LMS_BASE_URL env @ ''/api/user/v1/accounts/'' @ username
                             @ ''/retirement_information/'')])"
  by (simp add: getRetirement_def io_defs customAttributes_of_def raised_def)

lemma property_cases:
  "property v k log = (Inl (raised TypeError), log) \<or> (\<exists>x. property v k log = (Inr x, log))"
  by (cases v) (simp_all add: property_def io_defs)

lemma getRetirement_success:
  assumes "remote env log (GET (LMS_BASE_URL env @ ''/api/user/v1/accounts/'' @ username
                             @ ''/retirement_information/'')) = Inr response"
  shows "getRetirement env username log =
           (Inl (raised TypeError),
            log @ [GET (LMS_BASE_URL env @ ''/api/user/v1/accounts/'' @ username
                        @ ''/retirement_information/'')]) \<or>
         (\<exists>t. getRetirement env username log =
           (Inr (Some (retired t)),
            log @ [GET (LMS_BASE_URL env @ ''/api/user/v1/accounts/'' @ username
                        @ ''/retirement_information/'')]))"
proof -
  let ?q = "GET (LMS_BASE_URL env @ ''/api/user/v1/accounts/'' @ username
                             @ ''/retirement_information/'')"
  let ?data = "camelCaseObject env response"
  from property_cases [of ?data "''retirementRequestDate''" "log @ [?q]"]
  show ?thesis
  proof
    assume "property ?data ''retirementRequestDate'' (log @ [?q]) =
              (Inl (raised TypeError), log @ [?q])"
    with assms show ?thesis
      by (simp add: getRetirement_def io_defs customAttributes_of_def raised_def Let_def)
  next
    assume "\<exists>x. property ?data ''retirementRequestDate'' (log @ [?q]) = (Inr x, log @ [?q])"
    then obtain x where
      x: "property ?data ''retirementRequestDate'' (log @ [?q]) = (Inr x, log @ [?q])" ..
    from property_cases [of ?data "''retirementDate''" "log @ [?q]"]
    show ?thesis
    proof
      assume "property ?data ''retirementDate'' (log @ [?q]) =
                (Inl (raised TypeError), log @ [?q])"
      with assms x show ?thesis
        by (simp add: getRetirement_def io_defs customAttributes_of_def raised_def Let_def)
    next
      assume "\<exists>y. property ?data ''retirementDate'' (log @ [?q]) = (Inr y, log @ [?q])"
      then obtain y where
        "property ?data ''retirementDate'' (log @ [?q]) = (Inr y, log @ [?q])" ..
      with assms x show ?thesis
        by (auto simp add: getRetirement_def io_defs customAttributes_of_def raised_def Let_def)
    qed
  qed
qed

lemma getRetirement_log:
  "snd (getRetirement env username log) =
     log @ [GET (LMS_BASE_URL env @ ''/api/user/v1/accounts/'' @ username
                 @ ''/retirement_information/'')]"
proof (cases "remote env log (GET (LMS_BASE_URL env @ ''/api/user/v1/accounts/'' @ username
                             @ ''/retirement_information/''))")
  case (Inl attrs)
  from getRetirement_failure [OF Inl] show ?thesis by simp
next
  case (Inr response)
  from getRetirement_success [OF Inr] show ?thesis by auto
qed

lemma getAllUserData_after_retirement:
  "getUser env userIdentifier log = (Inl error, log1) \<Longrightarrow>
   getRetirement env userIdentifier log1 = (Inr (Some retirementError), log2) \<Longrightarrow>
   getAllUserData env userIdentifier log =
     (case userError error of
        Some d \<Rightarrow> Inr \<lparr>errors = [retirementError, d], user = Null, entitlements = Arr [],
                      enrollments = Arr [], verificationStatus = Null\<rparr>
      | None \<Rightarrow> Inl error,
      log2)"
  by (simp add: getAllUserData_def io_defs userError_of_def split: option.splits)

lemma getAllUserData_retirement_requested:
  assumes "getUser env userIdentifier log = (Inl error, log1)"
  shows "snd (getAllUserData env userIdentifier log) = snd (getRetirement env userIdentifier log1)"
proof (cases "getRetirement env userIdentifier log1")
  case (Pair r log2)
  with assms show ?thesis
    by (cases r) (simp_all add: getAllUserData_def io_defs userError_of_def throw_def
                     split: option.splits)
qed

section \<open>Identifier classification and user lookup\<close>

text \<open>
  C8. For every identifier that matches neither the email pattern nor the username
  pattern, \<^verbatim>\<open>getUser\<close> fails with the invalid-argument error and issues no network
  call: the list of requests is returned as it was.
\<close>

theorem getUser_invalid_argument:
  "\<not> matches EMAIL_REGEX userIdentifier \<Longrightarrow> \<not> matches USERNAME_REGEX userIdentifier \<Longrightarrow>
   getUser env userIdentifier log = (Inl (raised (Error ''Invalid Argument!'')), log)"
  by (simp add: getUser_def classify_def Let_def throw_def)

theorem getUser_invalid_argument_witness:
  "\<not> matches EMAIL_REGEX ''a b'' \<and> \<not> matches USERNAME_REGEX ''a b'' \<and>
   getUser (sample_env (answering Null)) ''a b'' [] =
     (Inl (raised (Error ''Invalid Argument!'')), [])"
proof -
  have email: "\<not> matches EMAIL_REGEX ''a b''" by code_simp
  have username: "\<not> matches USERNAME_REGEX ''a b''" by code_simp
  from getUser_invalid_argument [OF email username] email username
  show ?thesis by simp
qed

text \<open>
  C6, at the input where it fails. The identifier \<^verbatim>\<open>a@b.co\<close> matches both patterns
  and the email-filtered query is the one issued. The service answers 404 with a body
  that is not JSON text: the log line of the \<^verbatim>\<open>catch\<close> block throws the
  SyntaxError of \<^verbatim>\<open>JSON.parse\<close> before the descriptor is attached, so the failure
  \<^verbatim>\<open>getUser\<close> raises carries no descriptor.
\<close>

theorem getUser_email_not_found_unparsed:
  "matches EMAIL_REGEX ''a@b.co'' \<and> matches USERNAME_REGEX ''a@b.co'' \<and>
   getUser (sample_env (failing 404 ''<Response is HTML>'')) ''a@b.co'' [] =
     (Inl (raised SyntaxError), [GET ''http://lms/api/user/v1/accounts?email=a@b.co'']) \<and>
   userError (raised SyntaxError) = None"
  by code_simp

text \<open>What holds of the email branch: the email pattern decides first, the query is the
  email-filtered one, and a 404 whose body parses is raised with the not-found
  descriptor, whose text quotes the identifier.\<close>

lemma getUser_email:
  assumes "matches EMAIL_REGEX userIdentifier"
  shows "snd (getUser env userIdentifier log) =
           log @ [GET (LMS_BASE_URL env @ ''/api/user/v1/accounts?email='' @ userIdentifier)]"
    and "remote env log
           (GET (LMS_BASE_URL env @ ''/api/user/v1/accounts?email='' @ userIdentifier)) = Inl attrs \<Longrightarrow>
         httpErrorStatus attrs = 404 \<Longrightarrow> json_text (httpErrorResponseData attrs) \<Longrightarrow>
         fst (getUser env userIdentifier log) =
           Inl \<lparr>what = HttpFailure attrs,
                userError = Some (userNotFound
                  (''We couldn'' @ [CHR 0x27] @ ''t find a user with the email '' @ [CHR 0x22]
                   @ userIdentifier @ [CHR 0x22] @ ''.''))\<rparr>"
proof -
  from assms have c: "classify env userIdentifier =
      Some (LMS_BASE_URL env @ ''/api/user/v1/accounts?email='' @ userIdentifier,
            ''We couldn'' @ [CHR 0x27] @ ''t find a user with the email '' @ [CHR 0x22]
            @ userIdentifier @ [CHR 0x22] @ ''.'')"
    by (simp add: classify_def Let_def)
  show "snd (getUser env userIdentifier log) =
           log @ [GET (LMS_BASE_URL env @ ''/api/user/v1/accounts?email='' @ userIdentifier)]"
    by (simp add: getUser_run [OF c])
  show "fst (getUser env userIdentifier log) =
           Inl \<lparr>what = HttpFailure attrs,
                userError = Some (userNotFound
                  (''We couldn'' @ [CHR 0x27] @ ''t find a user with the email '' @ [CHR 0x22]
                   @ userIdentifier @ [CHR 0x22] @ ''.''))\<rparr>"
    if "remote env log
           (GET (LMS_BASE_URL env @ ''/api/user/v1/accounts?email='' @ userIdentifier)) = Inl attrs"
      and "httpErrorStatus attrs = 404" and "json_text (httpErrorResponseData attrs)"
    using that by (simp add: getUser_run [OF c])
qed

text \<open>
  C4, as the code has it. When the account endpoint answers with a payload,
  \<^verbatim>\<open>getUser\<close> returns its first element if the payload is an array that is not
  empty, and the whole payload otherwise: also when the payload is the empty array.
\<close>

theorem getUser_payload:
  assumes "classify env userIdentifier = Some (url, notFoundErrorText)"
    and "remote env log (GET url) = Inr data"
  shows "getUser env userIdentifier log =
           (Inr (if \<exists>x xs. data = Arr (x # xs) then index data 0 else data), log @ [GET url])"
proof (cases "\<exists>x xs. data = Arr (x # xs)")
  case True
  with assms show ?thesis by (auto simp: getUser_run)
next
  case False
  then have "first_or_whole data = data"
    by (cases data rule: first_or_whole.cases) (auto simp: neq_Nil_conv)
  with assms False show ?thesis by (simp add: getUser_run)
qed

theorem getUser_payload_witness:
  "getUser (sample_env (answering (Arr [Obj [(''username'', Str ''alice'')], Null]))) ''alice'' [] =
     (Inr (Obj [(''username'', Str ''alice'')]), [GET ''http://lms/api/user/v1/accounts/alice'']) \<and>
   getUser (sample_env (answering (Arr []))) ''alice'' [] =
     (Inr (Arr []), [GET ''http://lms/api/user/v1/accounts/alice'']) \<and>
   getUser (sample_env (answering (Str ''x''))) ''alice'' [] =
     (Inr (Str ''x''), [GET ''http://lms/api/user/v1/accounts/alice''])"
proof -
  have c: "classify (sample_env r) ''alice'' =
             Some (''http://lms/api/user/v1/accounts/alice'',
                   ''We couldn'' @ [CHR 0x27] @ ''t find a user with the username ''
                   @ [CHR 0x22] @ ''alice'' @ [CHR 0x22] @ ''.'')" for r
  proof -
    have "\<not> matches EMAIL_REGEX ''alice''" by code_simp
    moreover have "matches USERNAME_REGEX ''alice''" by code_simp
    ultimately show ?thesis by (simp add: classify_def sample_env_def)
  qed
  have r: "remote (sample_env (answering d)) [] (GET u) = Inr d" for d u
    by (simp add: sample_env_def answering_def)
  from getUser_payload [OF c r] getUser_payload [OF c r, of "Arr []"]
    getUser_payload [OF c r, of "Str ''x''"]
  show ?thesis by simp
qed

text \<open>C4 as stated fails on the empty array: the payload is an array, and what
  \<^verbatim>\<open>getUser\<close> returns is the array, not its first element \<^verbatim>\<open>data[0]\<close>.\<close>

theorem getUser_empty_array_counterexample:
  "remote (sample_env (answering (Arr []))) [] (GET ''http://lms/api/user/v1/accounts/alice'') =
     Inr (Arr []) \<and>
   fst (getUser (sample_env (answering (Arr []))) ''alice'' []) = Inr (Arr []) \<and>
   index (Arr []) 0 = Undefined"
  by code_simp

section \<open>Verification status\<close>

text \<open>
  C7, at the input where it fails. The service answers the verification-status request
  with a 500 whose body is not JSON text. The log line of the \<^verbatim>\<open>catch\<close> block
  throws, and \<^verbatim>\<open>getUserVerificationStatus\<close> raises that SyntaxError instead of
  resolving to the \<^verbatim>\<open>Error, status unknown\<close> value.
\<close>

theorem getUserVerificationStatus_unparsed:
  "getUserVerificationStatus (sample_env (failing 500 ''<Response is HTML>'')) (Str ''alice'') [] =
     (Inl (raised SyntaxError), [GET ''http://lms/api/user/v1/accounts/alice/verification_status/''])"
  by code_simp

text \<open>With a body that parses, the two fixed values are returned and nothing is raised.\<close>

lemma getUserVerificationStatus_degraded:
  assumes "remote env log (GET (LMS_BASE_URL env @ ''/api/user/v1/accounts/''
                                 @ to_string env username @ ''/verification_status/'')) = Inl attrs"
    and "json_text (httpErrorResponseData attrs)"
  shows "fst (getUserVerificationStatus env username log) =
           Inr (if httpErrorStatus attrs = 404
                then Obj [(''status'', Str ''Not Available''), (''expirationDatetime'', Str []),
                          (''isVerified'', Bool False)]
                else Obj [(''status'', Str ''Error, status unknown''),
                          (''expirationDatetime'', Str []), (''isVerified'', Bool False)])"
  using assms
  by (simp add: getUserVerificationStatus_run verificationNotAvailable_def
        verificationUnknown_def)

section \<open>Retirement fallback\<close>

text \<open>
  C3, at the input where it fails. The retirement-record request fails with a 500. The
  \<^verbatim>\<open>catch\<close> block of \<^verbatim>\<open>getRetirement\<close> handles 404 only and then ends, so the
  failure is swallowed and the function resolves to \<^verbatim>\<open>undefined\<close>; nothing
  propagates.
\<close>

theorem getRetirement_swallows_failure:
  "getRetirement (sample_env (failing 500 ''{}'')) ''bob'' [] =
     (Inr None, [GET ''http://lms/api/user/v1/accounts/bob/retirement_information/''])"
  by code_simp

text \<open>The same for every status other than 404 and every body.\<close>

lemma getRetirement_undefined:
  assumes "remote env log (GET (LMS_BASE_URL env @ ''/api/user/v1/accounts/'' @ username
                                 @ ''/retirement_information/'')) = Inl attrs"
    and "httpErrorStatus attrs \<noteq> 404"
  shows "fst (getRetirement env username log) = Inr None"
  using assms by (simp add: getRetirement_failure)

section \<open>Mutation operations\<close>

text \<open>
  C9, at the input where it fails. The service answers 400 with a body that is not JSON
  text. On a 400 the \<^verbatim>\<open>catch\<close> block logs \<^verbatim>\<open>JSON.parse\<close> of the body first, which
  throws: \<^verbatim>\<open>patchEntitlement\<close> and \<^verbatim>\<open>postEntitlement\<close> raise the SyntaxError and
  return no object.
\<close>

theorem entitlement_mutations_unparsed:
  "fst (patchEntitlement (sample_env (failing 400 ''<Response is HTML>''))
          (Str ''u1'') (Str ''REISSUE'') Undefined (Str ''why'') []) = Inl (raised SyntaxError) \<and>
   fst (postEntitlement (sample_env (failing 400 ''<Response is HTML>''))
          (Str ''alice'') (Str ''c1'') (Str ''verified'') (Str ''CREATE'') Undefined []) =
     Inl (raised SyntaxError)"
  by code_simp

text \<open>On every other failure (another status, or a 400 whose body parses) both return the
  object with the one descriptor.\<close>

lemma entitlement_mutations_degraded:
  assumes "httpErrorStatus attrs \<noteq> 400 \<or> json_text (httpErrorResponseData attrs)"
  shows "remote env log (patchEntitlement_request env uuid action unenrolledRun comments) = Inl attrs \<Longrightarrow>
         fst (patchEntitlement env uuid action unenrolledRun comments log) =
           Inr (errors_object (submitFailed ''entitlements''))"
    and "remote env log (postEntitlement_request env usr courseUuid mode action comments) = Inl attrs \<Longrightarrow>
         fst (postEntitlement env usr courseUuid mode action comments log) =
           Inr (errors_object (submitFailed ''entitlements''))"
  using assms by (auto simp: patchEntitlement_failure postEntitlement_failure)

section \<open>Aggregation workflow\<close>

text \<open>
  C1, as the code has it. When \<^verbatim>\<open>getUser\<close> raises the failure of a 404 and
  \<^verbatim>\<open>getRetirement\<close> resolves to an object with a descriptor, \<^verbatim>\<open>getAllUserData\<close>
  returns the result whose errors are that descriptor and then the not-found descriptor
  of the identifier, with every data field at its default.
\<close>

theorem getAllUserData_not_found:
  assumes "getUser env userIdentifier log = (Inl error, log1)"
    and "what error = HttpFailure attrs"
    and "httpErrorStatus attrs = 404"
    and "getRetirement env userIdentifier log1 = (Inr (Some retirementError), log2)"
  shows "\<exists>url notFoundErrorText.
           classify env userIdentifier = Some (url, notFoundErrorText) \<and>
           getAllUserData env userIdentifier log =
             (Inr \<lparr>errors = [retirementError, userNotFound notFoundErrorText], user = Null,
                   entitlements = Arr [], enrollments = Arr [], verificationStatus = Null\<rparr>,
              log2)"
proof -
  from getUser_http_failure [OF assms(1,2)] assms(3)
  obtain url t where c: "classify env userIdentifier = Some (url, t)"
    and u: "userError error = Some (userNotFound t)" by auto
  from getAllUserData_after_retirement [OF assms(1) assms(4)] u c show ?thesis by simp
qed

theorem getAllUserData_not_found_witness:
  "getAllUserData (sample_env retired_remote) ''alice'' [] =
     (Inr \<lparr>errors =
             [retired (''User with username alice has been retired. ''
                @ ''The user requested retirement on 2020-01-01. ''
                @ ''Information about their retirement date is not available''),
              userNotFound (''We couldn'' @ [CHR 0x27] @ ''t find a user with the username ''
                @ [CHR 0x22] @ ''alice'' @ [CHR 0x22] @ ''.'')],
           user = Null, entitlements = Arr [], enrollments = Arr [],
           verificationStatus = Null\<rparr>,
      [GET ''http://lms/api/user/v1/accounts/alice'',
       GET ''http://lms/api/user/v1/accounts/alice/retirement_information/''])"
proof -
  let ?env = "sample_env retired_remote"
  let ?attrs = "\<lparr>httpErrorStatus = 404, httpErrorResponseData = ''{}''\<rparr>"
  let ?t = "''We couldn'' @ [CHR 0x27] @ ''t find a user with the username ''
                @ [CHR 0x22] @ ''alice'' @ [CHR 0x22] @ ''.''"
  have 1: "getUser ?env ''alice'' [] =
             (Inl \<lparr>what = HttpFailure ?attrs, userError = Some (userNotFound ?t)\<rparr>,
              [GET ''http://lms/api/user/v1/accounts/alice''])"
    by code_simp
  have 2: "what \<lparr>what = HttpFailure ?attrs, userError = Some (userNotFound ?t)\<rparr> =
             HttpFailure ?attrs"
    by simp
  have 3: "httpErrorStatus ?attrs = 404" by simp
  have 4: "getRetirement ?env ''alice'' [GET ''http://lms/api/user/v1/accounts/alice''] =
             (Inr (Some (retired (''User with username alice has been retired. ''
                @ ''The user requested retirement on 2020-01-01. ''
                @ ''Information about their retirement date is not available''))),
              [GET ''http://lms/api/user/v1/accounts/alice'',
               GET ''http://lms/api/user/v1/accounts/alice/retirement_information/''])"
    by code_simp
  have 5: "classify ?env ''alice'' = Some (''http://lms/api/user/v1/accounts/alice'', ?t)"
    by code_simp
  from getAllUserData_not_found [OF 1 2 3 4] 5 show ?thesis by simp
qed

text \<open>C1 as stated fails when the retirement record cannot be fetched either: the
  lookup raises the failure of a 404, the retirement request fails with a 500,
  \<^verbatim>\<open>getRetirement\<close> resolves to \<^verbatim>\<open>undefined\<close>, and reading its
  \<^verbatim>\<open>userError\<close> throws. No result is returned.\<close>

theorem getAllUserData_not_found_counterexample:
  "getUser (sample_env (first_then (failing 404 ''{}'') (failing 500 ''{}''))) ''alice'' [] =
     (Inl \<lparr>what = HttpFailure \<lparr>httpErrorStatus = 404, httpErrorResponseData = ''{}''\<rparr>,
           userError = Some (userNotFound
             (''We couldn'' @ [CHR 0x27] @ ''t find a user with the username ''
              @ [CHR 0x22] @ ''alice'' @ [CHR 0x22] @ ''.''))\<rparr>,
      [GET ''http://lms/api/user/v1/accounts/alice'']) \<and>
   getAllUserData (sample_env (first_then (failing 404 ''{}'') (failing 500 ''{}''))) ''alice'' [] =
     (Inl (raised TypeError),
      [GET ''http://lms/api/user/v1/accounts/alice'',
       GET ''http://lms/api/user/v1/accounts/alice/retirement_information/''])"
  by code_simp

text \<open>
  C2, as the code has it. Whenever \<^verbatim>\<open>getUser\<close> fails, whatever the failure, the
  retirement request is issued next. When \<^verbatim>\<open>getRetirement\<close> resolves to an object
  with a descriptor, that descriptor opens the error list; then, if the original failure
  carries a descriptor, it is appended and the result is returned with every data field
  at its default, and otherwise the original failure is raised again.
\<close>

theorem getAllUserData_fallback_branches:
  assumes "getUser env userIdentifier log = (Inl error, log1)"
  shows "snd (getAllUserData env userIdentifier log) =
           log1 @ [GET (LMS_BASE_URL env @ ''/api/user/v1/accounts/'' @ userIdentifier
                        @ ''/retirement_information/'')] \<and>
         (getRetirement env userIdentifier log1 = (Inr (Some retirementError), log2) \<longrightarrow>
          getAllUserData env userIdentifier log =
            (case userError error of
               Some d \<Rightarrow> Inr \<lparr>errors = [retirementError, d], user = Null,
                             entitlements = Arr [], enrollments = Arr [],
                             verificationStatus = Null\<rparr>
             | None \<Rightarrow> Inl error,
             log2))"
  using getAllUserData_retirement_requested [OF assms] getAllUserData_after_retirement [OF assms]
  by (simp add: getRetirement_log)

theorem getAllUserData_fallback_branches_witness:
  "getAllUserData (sample_env (failing 404 ''{}'')) ''alice'' [] =
     (Inr \<lparr>errors =
             [userNotFound (''We couldn'' @ [CHR 0x27] @ ''t find a user with the username ''
                @ [CHR 0x22] @ ''alice'' @ [CHR 0x22] @ ''.''),
              userNotFound (''We couldn'' @ [CHR 0x27] @ ''t find a user with the username ''
                @ [CHR 0x22] @ ''alice'' @ [CHR 0x22] @ ''.'')],
           user = Null, entitlements = Arr [], enrollments = Arr [],
           verificationStatus = Null\<rparr>,
      [GET ''http://lms/api/user/v1/accounts/alice'',
       GET ''http://lms/api/user/v1/accounts/alice/retirement_information/'']) \<and>
   getAllUserData (sample_env (failing 404 ''{}'')) ''a b'' [] =
     (Inl (raised (Error ''Invalid Argument!'')),
      [GET ''http://lms/api/user/v1/accounts/a b/retirement_information/''])"
proof -
  let ?env = "sample_env (failing 404 ''{}'')"
  let ?attrs = "\<lparr>httpErrorStatus = 404, httpErrorResponseData = ''{}''\<rparr>"
  let ?t = "''We couldn'' @ [CHR 0x27] @ ''t find a user with the username ''
                @ [CHR 0x22] @ ''alice'' @ [CHR 0x22] @ ''.''"
  let ?u = "''We couldn'' @ [CHR 0x27] @ ''t find a user with the username ''
                @ [CHR 0x22] @ ''a b'' @ [CHR 0x22] @ ''.''"
  have 1: "getUser ?env ''alice'' [] =
             (Inl \<lparr>what = HttpFailure ?attrs, userError = Some (userNotFound ?t)\<rparr>,
              [GET ''http://lms/api/user/v1/accounts/alice''])"
    by code_simp
  have 2: "getRetirement ?env ''alice'' [GET ''http://lms/api/user/v1/accounts/alice''] =
             (Inr (Some (userNotFound ?t)),
              [GET ''http://lms/api/user/v1/accounts/alice'',
               GET ''http://lms/api/user/v1/accounts/alice/retirement_information/''])"
    by code_simp
  have 3: "getUser ?env ''a b'' [] = (Inl (raised (Error ''Invalid Argument!'')), [])"
    by code_simp
  have 4: "getRetirement ?env ''a b'' [] =
             (Inr (Some (userNotFound ?u)),
              [GET ''http://lms/api/user/v1/accounts/a b/retirement_information/''])"
    by code_simp
  from getAllUserData_fallback_branches [OF 1] 2
    getAllUserData_fallback_branches [OF 3] 4
  show ?thesis by (simp add: raised_def)
qed

text \<open>C2 as stated fails when \<^verbatim>\<open>getRetirement\<close> has no descriptor to give. Both
  requests fail with a 500: the original failure carries its descriptor, yet the
  workflow does not return; reading \<^verbatim>\<open>userError\<close> of \<^verbatim>\<open>undefined\<close> throws.\<close>

theorem getAllUserData_fallback_counterexample:
  "getUser (sample_env (failing 500 ''{}'')) ''alice'' [] =
     (Inl \<lparr>what = HttpFailure \<lparr>httpErrorStatus = 500, httpErrorResponseData = ''{}''\<rparr>,
           userError = Some userLoadFailed\<rparr>,
      [GET ''http://lms/api/user/v1/accounts/alice'']) \<and>
   getAllUserData (sample_env (failing 500 ''{}'')) ''alice'' [] =
     (Inl (raised TypeError),
      [GET ''http://lms/api/user/v1/accounts/alice'',
       GET ''http://lms/api/user/v1/accounts/alice/retirement_information/''])"
  by code_simp

text \<open>
  C5. When the user lookup returns a record whose \<^verbatim>\<open>username\<close> is a string (the
  claim's \<^verbatim>\<open>{username: "alice"}\<close> is the witness), the entitlements and enrollments
  requests are answered and the verification lookup resolves, \<^verbatim>\<open>getAllUserData\<close>
  issues exactly the three dependent requests, each built from that username, and
  returns no errors, the user, and the three results.
\<close>

theorem getAllUserData_success:
  assumes "getUser env userIdentifier log = (Inr (Obj kvs), log1)"
    and "map_of kvs ''username'' = Some (Str name)"
    and "remote env log1
           (GET (LMS_BASE_URL env @ ''/api/entitlements/v1/entitlements/?user='' @ name)) = Inr e1"
    and "remote env
           (log1 @ [GET (LMS_BASE_URL env @ ''/api/entitlements/v1/entitlements/?user='' @ name)])
           (GET (LMS_BASE_URL env @ ''/support/enrollment/'' @ name)) = Inr e2"
    and "getUserVerificationStatus env (Str name)
           (log1 @ [GET (LMS_BASE_URL env @ ''/api/entitlements/v1/entitlements/?user='' @ name),
                    GET (LMS_BASE_URL env @ ''/support/enrollment/'' @ name)]) = (Inr v, log2)"
  shows "getAllUserData env userIdentifier log =
           (Inr \<lparr>errors = [], user = Obj kvs, entitlements = e1, enrollments = e2,
                 verificationStatus = v\<rparr>,
            log1 @ [GET (LMS_BASE_URL env @ ''/api/entitlements/v1/entitlements/?user='' @ name),
                    GET (LMS_BASE_URL env @ ''/support/enrollment/'' @ name),
                    GET (LMS_BASE_URL env @ ''/api/user/v1/accounts/'' @ name
                         @ ''/verification_status/'')])"
proof -
  have l: "log2 =
      log1 @ [GET (LMS_BASE_URL env @ ''/api/entitlements/v1/entitlements/?user='' @ name),
              GET (LMS_BASE_URL env @ ''/support/enrollment/'' @ name),
              GET (LMS_BASE_URL env @ ''/api/user/v1/accounts/'' @ name
                   @ ''/verification_status/'')]"
    using assms(5) by (simp add: getUserVerificationStatus_run)
  show ?thesis
    using assms l
    by (simp add: getAllUserData_def getEntitlements_def getEnrollments_def property_def io_defs)
qed

theorem getAllUserData_success_witness:
  "getAllUserData (sample_env alice_remote) ''alice'' [] =
     (Inr \<lparr>errors = [], user = Obj [(''username'', Str ''alice'')],
           entitlements = Str ''entitlements of alice'',
           enrollments = Str ''enrollments of alice'',
           verificationStatus = Str ''verification of alice''\<rparr>,
      [GET ''http://lms/api/user/v1/accounts/alice'',
       GET ''http://lms/api/entitlements/v1/entitlements/?user=alice'',
       GET ''http://lms/support/enrollment/alice'',
       GET ''http://lms/api/user/v1/accounts/alice/verification_status/''])"
proof -
  let ?env = "sample_env alice_remote"
  let ?q = "GET ''http://lms/api/user/v1/accounts/alice''"
  have 1: "getUser ?env ''alice'' [] = (Inr (Obj [(''username'', Str ''alice'')]), [?q])"
    by code_simp
  have 2: "map_of [(''username'', Str ''alice'')] ''username'' = Some (Str ''alice'')"
    by simp
  have 3: "remote ?env [?q]
             (GET (LMS_BASE_URL ?env @ ''/api/entitlements/v1/entitlements/?user='' @ ''alice'')) =
           Inr (Str ''entitlements of alice'')"
    by code_simp
  have 4: "remote ?env
             ([?q] @ [GET (LMS_BASE_URL ?env @ ''/api/entitlements/v1/entitlements/?user=''
                           @ ''alice'')])
             (GET (LMS_BASE_URL ?env @ ''/support/enrollment/'' @ ''alice'')) =
           Inr (Str ''enrollments of alice'')"
    by code_simp
  have 5: "getUserVerificationStatus ?env (Str ''alice'')
             ([?q] @ [GET (LMS_BASE_URL ?env @ ''/api/entitlements/v1/entitlements/?user=''
                           @ ''alice''),
                      GET (LMS_BASE_URL ?env @ ''/support/enrollment/'' @ ''alice'')]) =
           (Inr (Str ''verification of alice''),
            [?q, GET ''http://lms/api/entitlements/v1/entitlements/?user=alice'',
             GET ''http://lms/support/enrollment/alice'',
             GET ''http://lms/api/user/v1/accounts/alice/verification_status/''])"
    by code_simp
  from getAllUserData_success [OF 1 2 3 4 5] show ?thesis
    by (simp add: sample_env_def)
qed

section \<open>Descriptors handed out\<close>

lemma well_formed_built:
  "well_formed (userNotFound t)" "well_formed userLoadFailed" "well_formed (retired t)"
  "well_formed (courseError404 env c)" "well_formed (courseError env c)"
  "well_formed (submitFailed ''entitlements'')" "well_formed (submitFailed ''enrollments'')"
  by (simp_all add: well_formed_def userNotFound_def userLoadFailed_def retired_def
        courseError404_def courseError_def submitFailed_def)

lemma getUser_well_formed:
  assumes "getUser env userIdentifier log = (Inl error, log')" and "userError error = Some d"
  shows "well_formed d"
proof (cases "classify env userIdentifier")
  case None
  with assms show ?thesis by (auto simp add: getUser_def throw_def raised_def)
next
  case (Some p)
  obtain url t where "p = (url, t)" by (cases p)
  with Some have "classify env userIdentifier = Some (url, t)" by simp
  from getUser_run [OF this, of log] assms show ?thesis
    by (auto simp: well_formed_built raised_def split: sum.splits if_splits)
qed

lemma getRetirement_well_formed:
  assumes "getRetirement env username log = (Inr (Some d), log')"
  shows "well_formed d"
proof (cases "remote env log (GET (LMS_BASE_URL env @ ''/api/user/v1/accounts/'' @ username
                             @ ''/retirement_information/''))")
  case (Inl attrs)
  from getRetirement_failure [OF Inl] assms show ?thesis
    by (auto simp: well_formed_built split: if_splits)
next
  case (Inr response)
  from getRetirement_success [OF Inr] assms show ?thesis
    by (auto simp: well_formed_built)
qed

text \<open>A result of the workflow has no error when the user lookup succeeded.\<close>

lemma getAllUserData_no_errors:
  assumes "getUser env userIdentifier log = (Inr u, log1)"
    and "getAllUserData env userIdentifier log = (Inr r, log')"
  shows "errors r = []"
  using assms
  by (auto simp: getAllUserData_def io_defs split: sum.splits prod.splits if_splits)

lemma getAllUserData_well_formed:
  assumes "getAllUserData env userIdentifier log = (Inr r, log')"
  shows "list_all well_formed (errors r)"
proof (cases "getUser env userIdentifier log")
  case (Pair x log1)
  show ?thesis
  proof (cases x)
    case (Inr u)
    with Pair assms show ?thesis by (simp add: getAllUserData_no_errors)
  next
    case (Inl error)
    with Pair have g: "getUser env userIdentifier log = (Inl error, log1)" by simp
    obtain y log2 where y: "getRetirement env userIdentifier log1 = (y, log2)"
      by (cases "getRetirement env userIdentifier log1")
    show ?thesis
    proof (cases y)
      case (Inl e)
      with g y assms show ?thesis by (simp add: getAllUserData_def io_defs)
    next
      case (Inr retirement)
      show ?thesis
      proof (cases retirement)
        case None
        with g y Inr assms show ?thesis
          by (simp add: getAllUserData_def io_defs userError_of_def)
      next
        case (Some d1)
        with y Inr have s: "getRetirement env userIdentifier log1 = (Inr (Some d1), log2)"
          by simp
        from getAllUserData_after_retirement [OF g s] assms
        obtain d2 where "userError error = Some d2" and "errors r = [d1, d2]"
          by (auto split: option.splits)
        with getUser_well_formed [OF g] getRetirement_well_formed [OF s]
        show ?thesis by simp
      qed
    qed
  qed
qed

text \<open>The object \<^verbatim>\<open>{ errors: [descriptor] }\<close> that a failed mutation returns, written
  out: the descriptor of \<^verbatim>\<open>submitFailed\<close> as the object literal of the source.\<close>

lemma errors_object_submitFailed:
  "errors_object (submitFailed t) =
     Obj [(''errors'',
           Arr [Obj [(''code'', Null), (''dismissible'', Bool True),
                     (''text'', Str ''There was an error submitting this entitlement. Check the JavaScript console for detailed errors.''),
                     (''type'', Str ''danger''), (''topic'', Str t)]])]"
  by (simp add: errors_object_def descriptor_js_def submitFailed_def)

lemma getCourseData_descriptor:
  assumes "remote env log (GET (DISCOVERY_API_BASE_URL env @ ''/api/v1/courses/''
                                 @ to_string env courseUUID @ ''/'')) = Inl attrs"
    and "getCourseData env courseUUID log = (Inr v, log')"
  shows "\<exists>t ty. v = Obj [(''errors'',
                          Arr [Obj [(''code'', Null), (''dismissible'', Bool True),
                                    (''text'', Str t), (''type'', Str ty),
                                    (''topic'', Str ''course-summary'')]])] \<and>
                 ty \<in> {''error'', ''danger''}"
proof (cases "httpErrorStatus attrs = 404")
  case True
  with assms have "v = errors_object (courseError404 env courseUUID)"
    by (auto simp: getCourseData_run split: if_splits)
  then have "v = Obj [(''errors'',
                       Arr [Obj [(''code'', Null), (''dismissible'', Bool True),
                                 (''text'', Str (text' (courseError404 env courseUUID))),
                                 (''type'', Str ''error''),
                                 (''topic'', Str ''course-summary'')]])]"
    by (simp add: errors_object_def descriptor_js_def courseError404_def)
  then show ?thesis by blast
next
  case False
  with assms have "v = errors_object (courseError env courseUUID)"
    by (auto simp: getCourseData_run split: if_splits)
  then have "v = Obj [(''errors'',
                       Arr [Obj [(''code'', Null), (''dismissible'', Bool True),
                                 (''text'', Str (text' (courseError env courseUUID))),
                                 (''type'', Str ''danger''),
                                 (''topic'', Str ''course-summary'')]])]"
    by (simp add: errors_object_def descriptor_js_def courseError_def)
  then show ?thesis by blast
qed

text \<open>
  C10. Every descriptor the module hands out has code \<^verbatim>\<open>null\<close>, is dismissible, has
  type \<^verbatim>\<open>error\<close> or \<^verbatim>\<open>danger\<close> and one of the four topics. For the descriptor
  attached to a failure raised by \<^verbatim>\<open>getUser\<close>, the one in the object
  \<^verbatim>\<open>getRetirement\<close> returns and every error of a result of \<^verbatim>\<open>getAllUserData\<close>
  this is said of the descriptor. For \<^verbatim>\<open>getCourseData\<close>, \<^verbatim>\<open>patchEntitlement\<close>,
  \<^verbatim>\<open>postEntitlement\<close> and \<^verbatim>\<open>postEnrollmentChange\<close> after a failed request it is
  said of the returned value itself: the object \<^verbatim>\<open>{ errors: [descriptor] }\<close>, key by
  key. The descriptor of a failed \<^verbatim>\<open>postEnrollmentChange\<close> has the topic
  \<^verbatim>\<open>enrollments\<close> and the text that speaks of the entitlement.
\<close>

theorem descriptors_well_formed:
  "(getUser env userIdentifier log = (Inl error, log') \<and> userError error = Some d \<longrightarrow>
      well_formed d) \<and>
   (getRetirement env username log = (Inr (Some d), log') \<longrightarrow> well_formed d) \<and>
   (remote env log (GET (DISCOVERY_API_BASE_URL env @ ''/api/v1/courses/''
                          @ to_string env courseUUID @ ''/'')) = Inl attrs \<and>
    getCourseData env courseUUID log = (Inr v, log') \<longrightarrow>
      (\<exists>t ty. v = Obj [(''errors'',
                         Arr [Obj [(''code'', Null), (''dismissible'', Bool True),
                                   (''text'', Str t), (''type'', Str ty),
                                   (''topic'', Str ''course-summary'')]])] \<and>
               ty \<in> {''error'', ''danger''})) \<and>
   (remote env log (patchEntitlement_request env uuid action unenrolledRun comments) = Inl attrs \<and>
    patchEntitlement env uuid action unenrolledRun comments log = (Inr v, log') \<longrightarrow>
      v = Obj [(''errors'',
                Arr [Obj [(''code'', Null), (''dismissible'', Bool True),
                          (''text'', Str ''There was an error submitting this entitlement. Check the JavaScript console for detailed errors.''),
                          (''type'', Str ''danger''), (''topic'', Str ''entitlements'')]])]) \<and>
   (remote env log (postEntitlement_request env usr courseUuid mode action comments) = Inl attrs \<and>
    postEntitlement env usr courseUuid mode action comments log = (Inr v, log') \<longrightarrow>
      v = Obj [(''errors'',
                Arr [Obj [(''code'', Null), (''dismissible'', Bool True),
                          (''text'', Str ''There was an error submitting this entitlement. Check the JavaScript console for detailed errors.''),
                          (''type'', Str ''danger''), (''topic'', Str ''entitlements'')]])]) \<and>
   (remote env log (postEnrollmentChange_request env usr courseID newMode oldMode reason) = Inl attrs \<and>
    postEnrollmentChange env usr courseID newMode oldMode reason log = (Inr v, log') \<longrightarrow>
      v = Obj [(''errors'',
                Arr [Obj [(''code'', Null), (''dismissible'', Bool True),
                          (''text'', Str ''There was an error submitting this entitlement. Check the JavaScript console for detailed errors.''),
                          (''type'', Str ''danger''), (''topic'', Str ''enrollments'')]])]) \<and>
   (getAllUserData env userIdentifier log = (Inr r, log') \<longrightarrow> list_all well_formed (errors r))"
proof (intro conjI impI)
  assume "getUser env userIdentifier log = (Inl error, log') \<and> userError error = Some d"
  then show "well_formed d" using getUser_well_formed by blast
next
  assume "getRetirement env username log = (Inr (Some d), log')"
  then show "well_formed d" by (rule getRetirement_well_formed)
next
  assume "remote env log (GET (DISCOVERY_API_BASE_URL env @ ''/api/v1/courses/''
                          @ to_string env courseUUID @ ''/'')) = Inl attrs \<and>
    getCourseData env courseUUID log = (Inr v, log')"
  then show "\<exists>t ty. v = Obj [(''errors'',
                         Arr [Obj [(''code'', Null), (''dismissible'', Bool True),
                                   (''text'', Str t), (''type'', Str ty),
                                   (''topic'', Str ''course-summary'')]])] \<and>
               ty \<in> {''error'', ''danger''}"
    using getCourseData_descriptor by blast
next
  assume "remote env log (patchEntitlement_request env uuid action unenrolledRun comments) = Inl attrs \<and>
    patchEntitlement env uuid action unenrolledRun comments log = (Inr v, log')"
  then have "v = errors_object (submitFailed ''entitlements'')"
    by (auto simp: patchEntitlement_failure split: if_splits)
  then show "v = Obj [(''errors'',
                Arr [Obj [(''code'', Null), (''dismissible'', Bool True),
                          (''text'', Str ''There was an error submitting this entitlement. Check the JavaScript console for detailed errors.''),
                          (''type'', Str ''danger''), (''topic'', Str ''entitlements'')]])]"
    by (simp only: errors_object_submitFailed)
next
  assume "remote env log (postEntitlement_request env usr courseUuid mode action comments) = Inl attrs \<and>
    postEntitlement env usr courseUuid mode action comments log = (Inr v, log')"
  then have "v = errors_object (submitFailed ''entitlements'')"
    by (auto simp: postEntitlement_failure split: if_splits)
  then show "v = Obj [(''errors'',
                Arr [Obj [(''code'', Null), (''dismissible'', Bool True),
                          (''text'', Str ''There was an error submitting this entitlement. Check the JavaScript console for detailed errors.''),
                          (''type'', Str ''danger''), (''topic'', Str ''entitlements'')]])]"
    by (simp only: errors_object_submitFailed)
next
  assume "remote env log (postEnrollmentChange_request env usr courseID newMode oldMode reason) = Inl attrs \<and>
    postEnrollmentChange env usr courseID newMode oldMode reason log = (Inr v, log')"
  then have "v = errors_object (submitFailed ''enrollments'')"
    by (auto simp: postEnrollmentChange_failure split: if_splits)
  then show "v = Obj [(''errors'',
                Arr [Obj [(''code'', Null), (''dismissible'', Bool True),
                          (''text'', Str ''There was an error submitting this entitlement. Check the JavaScript console for detailed errors.''),
                          (''type'', Str ''danger''), (''topic'', Str ''enrollments'')]])]"
    by (simp only: errors_object_submitFailed)
next
  assume "getAllUserData env userIdentifier log = (Inr r, log')"
  then show "list_all well_formed (errors r)" by (rule getAllUserData_well_formed)
qed

theorem descriptors_well_formed_witness:
  "getUser (sample_env (failing 404 ''{}'')) ''alice'' [] =
     (Inl \<lparr>what = HttpFailure \<lparr>httpErrorStatus = 404, httpErrorResponseData = ''{}''\<rparr>,
           userError = Some (userNotFound
             (''We couldn'' @ [CHR 0x27] @ ''t find a user with the username ''
              @ [CHR 0x22] @ ''alice'' @ [CHR 0x22] @ ''.''))\<rparr>,
      [GET ''http://lms/api/user/v1/accounts/alice'']) \<and>
   well_formed (userNotFound (''We couldn'' @ [CHR 0x27] @ ''t find a user with the username ''
                  @ [CHR 0x22] @ ''alice'' @ [CHR 0x22] @ ''.'')) \<and>
   getRetirement (sample_env (failing 404 ''{}'')) ''bob'' [] =
     (Inr (Some (userNotFound (''We couldn'' @ [CHR 0x27] @ ''t find a user with the username ''
                  @ [CHR 0x22] @ ''bob'' @ [CHR 0x22] @ ''.''))),
      [GET ''http://lms/api/user/v1/accounts/bob/retirement_information/'']) \<and>
   well_formed (userNotFound (''We couldn'' @ [CHR 0x27] @ ''t find a user with the username ''
                  @ [CHR 0x22] @ ''bob'' @ [CHR 0x22] @ ''.'')) \<and>
   fst (getCourseData (sample_env (failing 404 ''{}'')) (Str ''c1'') []) =
     Inr (Obj [(''errors'',
                Arr [Obj [(''code'', Null), (''dismissible'', Bool True),
                          (''text'', Str (''We couldn'' @ [CHR 0x27]
                             @ ''t find summary data for this Course '' @ [CHR 0x22] @ ''c1''
                             @ [CHR 0x22] @ ''.'')),
                          (''type'', Str ''error''), (''topic'', Str ''course-summary'')]])]) \<and>
   fst (patchEntitlement (sample_env (failing 404 ''{}''))
          (Str ''u1'') (Str ''REISSUE'') Undefined Undefined []) =
     Inr (Obj [(''errors'',
                Arr [Obj [(''code'', Null), (''dismissible'', Bool True),
                          (''text'', Str ''There was an error submitting this entitlement. Check the JavaScript console for detailed errors.''),
                          (''type'', Str ''danger''), (''topic'', Str ''entitlements'')]])]) \<and>
   fst (postEntitlement (sample_env (failing 404 ''{}''))
          (Str ''alice'') (Str ''c1'') (Str ''verified'') (Str ''CREATE'') Undefined []) =
     Inr (Obj [(''errors'',
                Arr [Obj [(''code'', Null), (''dismissible'', Bool True),
                          (''text'', Str ''There was an error submitting this entitlement. Check the JavaScript console for detailed errors.''),
                          (''type'', Str ''danger''), (''topic'', Str ''entitlements'')]])]) \<and>
   fst (postEnrollmentChange (sample_env (failing 404 ''{}''))
          (Str ''alice'') (Str ''c1'') (Str ''verified'') (Str ''audit'') (Str ''why'') []) =
     Inr (Obj [(''errors'',
                Arr [Obj [(''code'', Null), (''dismissible'', Bool True),
                          (''text'', Str ''There was an error submitting this entitlement. Check the JavaScript console for detailed errors.''),
                          (''type'', Str ''danger''), (''topic'', Str ''enrollments'')]])]) \<and>
   fst (getAllUserData (sample_env (failing 404 ''{}'')) ''alice'' []) =
     Inr \<lparr>errors =
            [userNotFound (''We couldn'' @ [CHR 0x27] @ ''t find a user with the username ''
               @ [CHR 0x22] @ ''alice'' @ [CHR 0x22] @ ''.''),
             userNotFound (''We couldn'' @ [CHR 0x27] @ ''t find a user with the username ''
               @ [CHR 0x22] @ ''alice'' @ [CHR 0x22] @ ''.'')],
          user = Null, entitlements = Arr [], enrollments = Arr [],
          verificationStatus = Null\<rparr> \<and>
   list_all well_formed
     [userNotFound (''We couldn'' @ [CHR 0x27] @ ''t find a user with the username ''
        @ [CHR 0x22] @ ''alice'' @ [CHR 0x22] @ ''.''),
      userNotFound (''We couldn'' @ [CHR 0x27] @ ''t find a user with the username ''
        @ [CHR 0x22] @ ''alice'' @ [CHR 0x22] @ ''.'')]"
proof -
  let ?env = "sample_env (failing 404 ''{}'')"
  let ?attrs = "\<lparr>httpErrorStatus = 404, httpErrorResponseData = ''{}''\<rparr>"
  let ?alice = "userNotFound (''We couldn'' @ [CHR 0x27] @ ''t find a user with the username ''
                  @ [CHR 0x22] @ ''alice'' @ [CHR 0x22] @ ''.'')"
  let ?bob = "userNotFound (''We couldn'' @ [CHR 0x27] @ ''t find a user with the username ''
                  @ [CHR 0x22] @ ''bob'' @ [CHR 0x22] @ ''.'')"
  let ?result = "\<lparr>errors = [?alice, ?alice], user = Null, entitlements = Arr [],
                   enrollments = Arr [], verificationStatus = Null\<rparr>"
  let ?course = "Obj [(''errors'',
                Arr [Obj [(''code'', Null), (''dismissible'', Bool True),
                          (''text'', Str (''We couldn'' @ [CHR 0x27]
                             @ ''t find summary data for this Course '' @ [CHR 0x22] @ ''c1''
                             @ [CHR 0x22] @ ''.'')),
                          (''type'', Str ''error''), (''topic'', Str ''course-summary'')]])]"
  have r: "remote ?env log req = Inl ?attrs" for log req
    by (simp add: sample_env_def failing_def)
  have 1: "getUser ?env ''alice'' [] =
             (Inl \<lparr>what = HttpFailure ?attrs, userError = Some ?alice\<rparr>,
              [GET ''http://lms/api/user/v1/accounts/alice''])"
    by code_simp
  have 2: "getRetirement ?env ''bob'' [] =
             (Inr (Some ?bob), [GET ''http://lms/api/user/v1/accounts/bob/retirement_information/''])"
    by code_simp
  have 3: "getCourseData ?env (Str ''c1'') [] =
             (Inr ?course, [GET ''http://discovery/api/v1/courses/c1/''])"
    by code_simp
  have 4: "patchEntitlement ?env (Str ''u1'') (Str ''REISSUE'') Undefined Undefined [] =
             (Inr (errors_object (submitFailed ''entitlements'')),
              [patchEntitlement_request ?env (Str ''u1'') (Str ''REISSUE'') Undefined Undefined])"
    by code_simp
  have 5: "postEntitlement ?env (Str ''alice'') (Str ''c1'') (Str ''verified'')
             (Str ''CREATE'') Undefined [] =
             (Inr (errors_object (submitFailed ''entitlements'')),
              [postEntitlement_request ?env (Str ''alice'') (Str ''c1'') (Str ''verified'')
                 (Str ''CREATE'') Undefined])"
    by code_simp
  have 6: "postEnrollmentChange ?env (Str ''alice'') (Str ''c1'') (Str ''verified'')
             (Str ''audit'') (Str ''why'') [] =
             (Inr (errors_object (submitFailed ''enrollments'')),
              [postEnrollmentChange_request ?env (Str ''alice'') (Str ''c1'') (Str ''verified'')
                 (Str ''audit'') (Str ''why'')])"
    by code_simp
  have 7: "getAllUserData ?env ''alice'' [] =
             (Inr ?result,
              [GET ''http://lms/api/user/v1/accounts/alice'',
               GET ''http://lms/api/user/v1/accounts/alice/retirement_information/''])"
    by code_simp
  note t = descriptors_well_formed [where env = ?env and log = "[]" and attrs = ?attrs]
  have a: "well_formed ?alice"
    by (rule mp [OF t [THEN conjunct1]], rule conjI, rule 1, simp)
  have b: "well_formed ?bob"
    by (rule mp [OF t [THEN conjunct2, THEN conjunct1]], rule 2)
  have c: "\<exists>t ty. ?course = Obj [(''errors'',
                         Arr [Obj [(''code'', Null), (''dismissible'', Bool True),
                                   (''text'', Str t), (''type'', Str ty),
                                   (''topic'', Str ''course-summary'')]])] \<and>
               ty \<in> {''error'', ''danger''}"
    by (rule mp [OF t [THEN conjunct2, THEN conjunct2, THEN conjunct1]],
        rule conjI, rule r, rule 3)
  have d: "errors_object (submitFailed ''entitlements'') =
             Obj [(''errors'',
                Arr [Obj [(''code'', Null), (''dismissible'', Bool True),
                          (''text'', Str ''There was an error submitting this entitlement. Check the JavaScript console for detailed errors.''),
                          (''type'', Str ''danger''), (''topic'', Str ''entitlements'')]])]"
    by (rule mp [OF t [THEN conjunct2, THEN conjunct2, THEN conjunct2, THEN conjunct1]],
        rule conjI, rule r, rule 4)
  have e: "errors_object (submitFailed ''entitlements'') =
             Obj [(''errors'',
                Arr [Obj [(''code'', Null), (''dismissible'', Bool True),
                          (''text'', Str ''There was an error submitting this entitlement. Check the JavaScript console for detailed errors.''),
                          (''type'', Str ''danger''), (''topic'', Str ''entitlements'')]])]"
    by (rule mp [OF t [THEN conjunct2, THEN conjunct2, THEN conjunct2, THEN conjunct2,
                       THEN conjunct1]],
        rule conjI, rule r, rule 5)
  have f: "errors_object (submitFailed ''enrollments'') =
             Obj [(''errors'',
                Arr [Obj [(''code'', Null), (''dismissible'', Bool True),
                          (''text'', Str ''There was an error submitting this entitlement. Check the JavaScript console for detailed errors.''),
                          (''type'', Str ''danger''), (''topic'', Str ''enrollments'')]])]"
    by (rule mp [OF t [THEN conjunct2, THEN conjunct2, THEN conjunct2, THEN conjunct2,
                       THEN conjunct2, THEN conjunct1]],
        rule conjI, rule r, rule 6)
  have "list_all well_formed (errors ?result)"
    by (rule mp [OF t [THEN conjunct2, THEN conjunct2, THEN conjunct2, THEN conjunct2,
                       THEN conjunct2, THEN conjunct2]], rule 7)
  then have g: "list_all well_formed [?alice, ?alice]" by simp
  from 1 a 2 b c g show ?thesis
    unfolding 3 4 5 6 7 fst_conv d e f by blast
qed

end
